theory Spec2Isabelle
  imports Main "HOL-Library.Multiset"
begin

section \<open>Strings and regular expressions of the source\<close>

text \<open>
  JavaScript strings are modelled as \<^typ>\<open>string\<close>, one \<^typ>\<open>char\<close> per code unit. The two
  CSV exports are ASCII texts. Code units from 256 on are outside the model (among them the
  line terminators U+2028 and U+2029), and so is the upper-casing of the code units from 128
  to 255: what is proved of a text in upper case is proved of ASCII text.
  \<open>undefined\<close> as the result of an index out of range is \<open>None\<close>.
\<close>

definition isDigit :: "char \<Rightarrow> bool" where
  \<comment> \<open>the regular expression class \<open>\d\<close>\<close>
  "isDigit c \<longleftrightarrow> c \<in> set ''0123456789''"

definition isLineTerminator :: "char \<Rightarrow> bool" where
  \<comment> \<open>what the regular expression \<open>.\<close> does not match: LF and CR\<close>
  "isLineTerminator c \<longleftrightarrow> c \<in> set [CHR 0x0A, CHR 0x0D]"

definition isWhiteSpace :: "char \<Rightarrow> bool" where
  \<comment> \<open>StrWhiteSpaceChar: TAB, LF, VT, FF, CR, SP, NBSP\<close>
  "isWhiteSpace c \<longleftrightarrow> c \<in> set [CHR 0x09, CHR 0x0A, CHR 0x0B, CHR 0x0C, CHR 0x0D, CHR 0x20, CHR 0xA0]"

definition nth_opt :: "'a list \<Rightarrow> nat \<Rightarrow> 'a option" where
  \<comment> \<open>\<open>xs[i]\<close>: \<open>undefined\<close> out of range\<close>
  "nth_opt xs i = (if i < length xs then Some (xs ! i) else None)"

fun split :: "char \<Rightarrow> string \<Rightarrow> string list" where
  \<comment> \<open>\<open>s.split(sep)\<close> for a separator of one character; never the empty list\<close>
  "split sep [] = [[]]"
| "split sep (c # cs) =
     (if c = sep then [] # split sep cs
      else (case split sep cs of [] \<Rightarrow> [[c]] | w # ws \<Rightarrow> (c # w) # ws))"

definition startsWith :: "string \<Rightarrow> string \<Rightarrow> bool" where
  "startsWith s pat \<longleftrightarrow> take (length pat) s = pat"

fun includes_js :: "string \<Rightarrow> string \<Rightarrow> bool" where
  \<comment> \<open>\<open>s.includes(pat)\<close>\<close>
  "includes_js [] pat = (pat = [])"
| "includes_js (c # cs) pat = (startsWith (c # cs) pat \<or> includes_js cs pat)"

fun replace_first :: "string \<Rightarrow> string \<Rightarrow> string" where
  \<comment> \<open>\<open>s.replace(/pat/, '')\<close> for a literal pattern without the \<open>g\<close> flag:
      the leftmost occurrence is cut out, nothing else\<close>
  "replace_first pat [] = []"
| "replace_first pat (c # cs) =
     (if startsWith (c # cs) pat then drop (length pat) (c # cs)
      else c # replace_first pat cs)"


definition toUpperChar :: "char \<Rightarrow> char" where
  \<comment> \<open>the capital of an ASCII letter; every other ASCII character is its own upper case\<close>
  "toUpperChar c =
     (case map_of (zip ''abcdefghijklmnopqrstuvwxyz'' ''ABCDEFGHIJKLMNOPQRSTUVWXYZ'') c of
        None \<Rightarrow> c
      | Some u \<Rightarrow> u)"

definition toUpperCase :: "string \<Rightarrow> string" where
  \<comment> \<open>\<open>s.toUpperCase()\<close> for a text \<open>s\<close> of ASCII characters\<close>
  "toUpperCase s = map toUpperChar s"

definition first_digits :: "string \<Rightarrow> string option" where
  \<comment> \<open>\<open>/(\d+)/g.exec(s)\<close> on a fresh expression: the leftmost, longest run of digits\<close>
  "first_digits s =
     (let r = dropWhile (\<lambda>c. \<not> isDigit c) s
      in if r = [] then None else Some (takeWhile isDigit r))"

definition paren_inner :: "string \<Rightarrow> string option" where
  \<comment> \<open>\<open>(.*)\)\<close> tried right after an opening parenthesis: the greedy \<open>.*\<close> runs to the end
      of the line and backs up to the last closing parenthesis on it\<close>
  "paren_inner rest =
     (let line = takeWhile (\<lambda>c. \<not> isLineTerminator c) rest
      in if CHR '')'' \<in> set line
         then Some (rev (tl (dropWhile (\<lambda>c. c \<noteq> CHR '')'') (rev line))))
         else None)"

fun regex_paren :: "string \<Rightarrow> string option" where
  \<comment> \<open>\<open>/\((.*)\)/.exec(s)\<close>, the capture group of the leftmost match\<close>
  "regex_paren [] = None"
| "regex_paren (c # cs) =
     (if c = CHR ''(''
      then (case paren_inner cs of Some m \<Rightarrow> Some m | None \<Rightarrow> regex_paren cs)
      else regex_paren cs)"

definition isUpperLetter :: "char \<Rightarrow> bool" where
  \<comment> \<open>the class \<open>[A-Z]\<close>\<close>
  "isUpperLetter c \<longleftrightarrow> c \<in> set ''ABCDEFGHIJKLMNOPQRSTUVWXYZ''"

definition blockAt :: "string \<Rightarrow> bool" where
  \<comment> \<open>\<open>Block ([A-Z])\<close> matches at the start of the text\<close>
  "blockAt s \<longleftrightarrow>
     startsWith s ''Block '' \<and> (case drop 6 s of [] \<Rightarrow> False | l # rest \<Rightarrow> isUpperLetter l)"

fun regex_block :: "string \<Rightarrow> char option" where
  \<comment> \<open>\<open>/Block ([A-Z])/.exec(s)\<close>, the capture group of the leftmost match\<close>
  "regex_block [] = None"
| "regex_block (c # cs) =
     (if blockAt (c # cs) then Some ((c # cs) ! 6) else regex_block cs)"

section \<open>Numbers\<close>

text \<open>
  The numbers of the source are doubles. The ones that occur here are integers, NaN and the
  two infinities: an integer that is no double is rounded to the nearest one, ties to the
  even significand, and to an infinity from \<open>2 ^ 1024 - 2 ^ 970\<close> on. Zero has no sign in the
  model; the source never divides by it.
\<close>

datatype number = NaN | Num int | PosInfinity | NegInfinity

fun bitlen :: "nat \<Rightarrow> nat" where
  \<comment> \<open>the number of binary digits\<close>
  "bitlen n = (if n = 0 then 0 else Suc (bitlen (n div 2)))"

declare bitlen.simps [simp del]

definition toDouble :: "int \<Rightarrow> number" where
  \<comment> \<open>the double nearest to an integer; below \<open>2 ^ 53\<close> every integer is one\<close>
  "toDouble n =
     (let a = nat \<bar>n\<bar>
      in if a < 9007199254740992 then Num n
         else (let e = bitlen a - 53;
                   q = a div 2 ^ e;
                   r = a mod 2 ^ e;
                   significand = (if 2 ^ e < 2 * r \<or> (2 * r = 2 ^ e \<and> odd q) then q + 1 else q);
                   v = significand * 2 ^ e
               in if 2 ^ 1024 \<le> v then (if n < 0 then NegInfinity else PosInfinity)
                  else Num (if n < 0 then - int v else int v)))"

fun negate_js :: "number \<Rightarrow> number" where
  "negate_js NaN = NaN"
| "negate_js (Num x) = Num (- x)"
| "negate_js PosInfinity = NegInfinity"
| "negate_js NegInfinity = PosInfinity"

fun plus_js :: "number \<Rightarrow> number \<Rightarrow> number" where
  \<comment> \<open>\<open>a + b\<close> on numbers\<close>
  "plus_js (Num x) (Num y) = toDouble (x + y)"
| "plus_js NaN b = NaN"
| "plus_js a NaN = NaN"
| "plus_js PosInfinity NegInfinity = NaN"
| "plus_js NegInfinity PosInfinity = NaN"
| "plus_js PosInfinity b = PosInfinity"
| "plus_js NegInfinity b = NegInfinity"
| "plus_js a PosInfinity = PosInfinity"
| "plus_js a NegInfinity = NegInfinity"

definition minus_js :: "number \<Rightarrow> number \<Rightarrow> number" where
  \<comment> \<open>\<open>a - b\<close>\<close>
  "minus_js a b = plus_js a (negate_js b)"

definition unequal_js :: "number \<Rightarrow> number \<Rightarrow> bool" where
  \<comment> \<open>\<open>a != b\<close>: NaN is unequal to everything, itself included\<close>
  "unequal_js a b \<longleftrightarrow> a = NaN \<or> b = NaN \<or> a \<noteq> b"

definition js_rem :: "number \<Rightarrow> int \<Rightarrow> number" where
  \<comment> \<open>\<open>a % b\<close> for a positive integer \<open>b\<close>: the sign of the result is the sign of the
      dividend\<close>
  "js_rem a b =
     (case a of
        Num x \<Rightarrow> Num (sgn x * (\<bar>x\<bar> mod \<bar>b\<bar>))
      | _ \<Rightarrow> NaN)"

subsection \<open>parseInt and number to string\<close>

definition digit_of :: "char \<Rightarrow> nat option" where
  "digit_of c =
     map_of (zip ''0123456789abcdef'' [0, 1, 2, 3, 4, 5, 6, 7, 8, 9, 10, 11, 12, 13, 14, 15]
             @ zip ''ABCDEF'' [10, 11, 12, 13, 14, 15]) c"

definition isRadixDigit :: "nat \<Rightarrow> char \<Rightarrow> bool" where
  "isRadixDigit r c \<longleftrightarrow> (case digit_of c of None \<Rightarrow> False | Some v \<Rightarrow> v < r)"

definition radix_value :: "nat \<Rightarrow> string \<Rightarrow> nat" where
  "radix_value r ds = foldl (\<lambda>acc c. acc * r + (case digit_of c of None \<Rightarrow> 0 | Some v \<Rightarrow> v)) 0 ds"

definition parseInt :: "string \<Rightarrow> number" where
  \<comment> \<open>\<open>parseInt(s)\<close> with no radix: white space, a sign, an optional \<open>0x\<close>, then the longest
      run of digits, as the double nearest to their value; NaN when that run is empty\<close>
  "parseInt s =
     (let t = dropWhile isWhiteSpace s;
          neg = startsWith t ''-'';
          u = (if startsWith t ''-'' \<or> startsWith t ''+'' then drop 1 t else t);
          hex = (startsWith u ''0x'' \<or> startsWith u ''0X'');
          r = (if hex then 16 else 10);
          v = (if hex then drop 2 u else u);
          z = takeWhile (isRadixDigit r) v
      in if z = [] then NaN
         else if neg then negate_js (toDouble (int (radix_value r z)))
         else toDouble (int (radix_value r z)))"

fun digits :: "nat \<Rightarrow> string" where
  "digits n = (if n < 10 then [''0123456789'' ! n] else digits (n div 10) @ [''0123456789'' ! (n mod 10)])"

declare digits.simps [simp del]

definition numberToString :: "number \<Rightarrow> string" where
  \<comment> \<open>a number inside a template literal; the integers that reach one here are below
      \<open>10 ^ 21\<close>, where the text is the decimal numeral\<close>
  "numberToString v =
     (case v of
        NaN \<Rightarrow> ''NaN''
      | Num n \<Rightarrow> (if n < 0 then ''-'' @ digits (nat (- n)) else digits (nat n))
      | PosInfinity \<Rightarrow> ''Infinity''
      | NegInfinity \<Rightarrow> ''-Infinity'')"

section \<open>Dates\<close>

definition DayFromYear :: "int \<Rightarrow> int" where
  "DayFromYear y = 365 * (y - 1970) + (y - 1969) div 4 - (y - 1901) div 100 + (y - 1601) div 400"

definition InLeapYear :: "int \<Rightarrow> bool" where
  "InLeapYear y \<longleftrightarrow> y mod 4 = 0 \<and> (y mod 400 = 0 \<or> y mod 100 \<noteq> 0)"

definition leapDay :: "int \<Rightarrow> int" where
  "leapDay y = (if InLeapYear y then 1 else 0)"

function year_search :: "int \<Rightarrow> int \<Rightarrow> int" where
  "year_search day y =
     (if day < DayFromYear y then year_search day (y - 1)
      else if DayFromYear (y + 1) \<le> day then year_search day (y + 1)
      else y)"
  by pat_completeness auto
termination
proof (relation "measure (\<lambda>(day, y). if day < DayFromYear y then nat (DayFromYear y - day) + 367
                                        else nat (day - DayFromYear y))")
  have div_step: "x div k \<le> (x + 1) div k \<and> (x + 1) div k \<le> x div k + 1" if "0 < k" for x k :: int
  proof
    show "x div k \<le> (x + 1) div k"
      using that by (intro zdiv_mono1) simp_all
    have "(x + 1) div k \<le> (x + k) div k"
      using that by (intro zdiv_mono1) simp_all
    moreover have "(x + k) div k = x div k + 1"
      using that div_add_self2 [of k x] by auto
    ultimately show "(x + 1) div k \<le> x div k + 1"
      by linarith
  qed
  have year_step: "364 \<le> DayFromYear (y + 1) - DayFromYear y \<and> DayFromYear (y + 1) - DayFromYear y \<le> 367"
    for y :: int
    using div_step [of 4 "y - 1969"] div_step [of 100 "y - 1901"] div_step [of 400 "y - 1601"]
    by (simp add: DayFromYear_def algebra_simps)
  {
    show "wf (measure (\<lambda>(day, y). if day < DayFromYear y then nat (DayFromYear y - day) + 367
                                    else nat (day - DayFromYear y)))"
      by simp
  next
    fix day y :: int
    assume "day < DayFromYear y"
    then show "((day, y - 1), (day, y)) \<in> measure (\<lambda>(day, y). if day < DayFromYear y
        then nat (DayFromYear y - day) + 367 else nat (day - DayFromYear y))"
      using year_step [of "y - 1"] by auto
  next
    fix day y :: int
    assume "\<not> day < DayFromYear y" "DayFromYear (y + 1) \<le> day"
    then show "((day, y + 1), (day, y)) \<in> measure (\<lambda>(day, y). if day < DayFromYear y
        then nat (DayFromYear y - day) + 367 else nat (day - DayFromYear y))"
      using year_step [of y] by auto
  }
qed

declare year_search.simps [simp del]

definition YearFromDay :: "int \<Rightarrow> int" where
  \<comment> \<open>the largest year whose first day is not after the given day\<close>
  "YearFromDay day = year_search day (1970 + day div 366)"

definition DayWithinYear :: "int \<Rightarrow> int" where
  "DayWithinYear day = day - DayFromYear (YearFromDay day)"

definition MonthFromDay :: "int \<Rightarrow> int" where
  "MonthFromDay day =
     (let d = DayWithinYear day; l = leapDay (YearFromDay day)
      in if d < 31 then 0
         else if d < 59 + l then 1
         else if d < 90 + l then 2
         else if d < 120 + l then 3
         else if d < 151 + l then 4
         else if d < 181 + l then 5
         else if d < 212 + l then 6
         else if d < 243 + l then 7
         else if d < 273 + l then 8
         else if d < 304 + l then 9
         else if d < 334 + l then 10
         else 11)"

definition monthStart :: "int \<Rightarrow> int \<Rightarrow> int" where
  \<comment> \<open>the day within the year on which month \<open>m\<close> (0 to 11) starts, \<open>l\<close> the leap day\<close>
  "monthStart l m =
     (if m = 0 then 0
      else if m = 1 then 31
      else if m = 2 then 59 + l
      else if m = 3 then 90 + l
      else if m = 4 then 120 + l
      else if m = 5 then 151 + l
      else if m = 6 then 181 + l
      else if m = 7 then 212 + l
      else if m = 8 then 243 + l
      else if m = 9 then 273 + l
      else if m = 10 then 304 + l
      else 334 + l)"

definition DateFromDay :: "int \<Rightarrow> int" where
  "DateFromDay day =
     DayWithinYear day - monthStart (leapDay (YearFromDay day)) (MonthFromDay day) + 1"

subsection \<open>Time values and the local time zone\<close>

text \<open>
  A \<open>Date\<close> holds a time value, the milliseconds since the epoch in UTC, or is invalid.
  \<open>new Date(year, month, date)\<close> takes its arguments in local time and the reading functions
  give local time back, so both depend on the time zone of the process. A zone is given by
  its two conversions: \<open>utcOf\<close> takes a local time to UTC, \<open>localOf\<close> takes a time value to
  local time. They need not be inverse to each other: a local time that the zone skips is
  taken to UTC with the offset before the gap.
\<close>

datatype DateValue = InvalidDate | TimeValue int

record zone =
  utcOf :: "int \<Rightarrow> int"
  localOf :: "int \<Rightarrow> int"

definition msPerDay :: int where
  "msPerDay = 86400000"

definition DayFromTime :: "int \<Rightarrow> int" where
  \<comment> \<open>the day number of a time\<close>
  "DayFromTime t = t div msPerDay"

definition fixedOffset :: "int \<Rightarrow> zone" where
  \<comment> \<open>the zone that is always \<open>ms\<close> milliseconds ahead of UTC\<close>
  "fixedOffset ms = \<lparr>utcOf = (\<lambda>t. t - ms), localOf = (\<lambda>t. t + ms)\<rparr>"

definition utc :: zone where
  "utc = fixedOffset 0"

definition apia :: zone where
  \<comment> \<open>Pacific/Apia around the end of 2011: ten hours behind UTC until 10:00 UTC on
      30 December 2011, fourteen hours ahead from then on, so that the local calendar has no
      30 December 2011\<close>
  "apia =
     \<lparr>utcOf = (\<lambda>t. if t + 36000000 < 1325239200000 then t + 36000000
                   else if 1325239200000 \<le> t - 50400000 then t - 50400000
                   else t + 36000000),
      localOf = (\<lambda>t. if t < 1325239200000 then t - 36000000 else t + 50400000)\<rparr>"

definition daysInMonth :: "int \<Rightarrow> int \<Rightarrow> int" where
  \<comment> \<open>the number of days of month \<open>m\<close> (1 to 12) of year \<open>y\<close>\<close>
  "daysInMonth y m =
     (if m = 2 then 28 + leapDay y else if m = 4 \<or> m = 6 \<or> m = 9 \<or> m = 11 then 30 else 31)"

definition dayNumber :: "int \<Rightarrow> int \<Rightarrow> int \<Rightarrow> int" where
  \<comment> \<open>the day number of day \<open>d\<close> of month \<open>m\<close> (1 to 12) of year \<open>y\<close>\<close>
  "dayNumber y m d = DayFromYear y + monthStart (leapDay y) (m - 1) + d - 1"

definition keepsDay :: "zone \<Rightarrow> int \<Rightarrow> bool" where
  \<comment> \<open>local midnight of the day, taken to UTC, is a time value in range, and its local
      time is a time of that day\<close>
  "keepsDay z day \<longleftrightarrow>
     \<bar>utcOf z (day * msPerDay)\<bar> \<le> 8640000000000000 \<and> DayFromTime (localOf z (utcOf z (day * msPerDay))) = day"

definition MakeDay :: "int \<Rightarrow> int \<Rightarrow> int \<Rightarrow> int option" where
  \<comment> \<open>the day number of day \<open>date\<close> of month \<open>month\<close> of \<open>year\<close>; months and days out of
      range carry over. Years beyond a million and months beyond ten million give NaN\<close>
  "MakeDay year month date =
     (if \<bar>year\<bar> \<le> 1000000 \<and> \<bar>month\<bar> \<le> 10000000 then
        (let ym = year + month div 12; mn = month mod 12
         in Some (DayFromYear ym + monthStart (leapDay ym) mn + date - 1))
      else None)"

definition newDate_in :: "zone \<Rightarrow> number \<Rightarrow> number \<Rightarrow> number \<Rightarrow> DateValue" where
  \<comment> \<open>\<open>new Date(year, month, date)\<close>: a year from 0 to 99 counts from 1900; local midnight of
      the day is taken to UTC; a time more than 100,000,000 days from the epoch is invalid\<close>
  "newDate_in z year month date =
     (case (year, month, date) of
        (Num y, Num m, Num d) \<Rightarrow>
          (case MakeDay (if 0 \<le> y \<and> y \<le> 99 then 1900 + y else y) m d of
             None \<Rightarrow> InvalidDate
           | Some day \<Rightarrow>
               (let t = utcOf z (day * msPerDay)
                in if \<bar>t\<bar> \<le> 8640000000000000 then TimeValue t else InvalidDate))
      | _ \<Rightarrow> InvalidDate)"

definition getFullYear_in :: "zone \<Rightarrow> DateValue \<Rightarrow> number" where
  "getFullYear_in z d =
     (case d of InvalidDate \<Rightarrow> NaN | TimeValue t \<Rightarrow> Num (YearFromDay (DayFromTime (localOf z t))))"

definition getMonth_in :: "zone \<Rightarrow> DateValue \<Rightarrow> number" where
  "getMonth_in z d =
     (case d of InvalidDate \<Rightarrow> NaN | TimeValue t \<Rightarrow> Num (MonthFromDay (DayFromTime (localOf z t))))"

definition getDate_in :: "zone \<Rightarrow> DateValue \<Rightarrow> number" where
  "getDate_in z d =
     (case d of InvalidDate \<Rightarrow> NaN | TimeValue t \<Rightarrow> Num (DateFromDay (DayFromTime (localOf z t))))"

subsection \<open>The two date functions of the source\<close>

definition parseVeracrossDate_in :: "zone \<Rightarrow> string \<Rightarrow> DateValue" where
  \<comment> \<open>lines 30 to 33, run in the zone \<open>z\<close>; \<open>undefined\<close> in a sum or difference is NaN\<close>
  "parseVeracrossDate_in z date =
     (let dateArray = map parseInt (split CHR ''/'' date);
          field = (\<lambda>i. case nth_opt dateArray i of None \<Rightarrow> NaN | Some v \<Rightarrow> v)
      in newDate_in z (plus_js (field 2) (Num 2000)) (minus_js (field 0) (Num 1)) (field 1))"

definition generateWAFormatDate_in :: "zone \<Rightarrow> DateValue \<Rightarrow> string" where
  \<comment> \<open>lines 42 to 44, run in the zone \<open>z\<close>\<close>
  "generateWAFormatDate_in z date =
     numberToString (plus_js (getMonth_in z date) (Num 1)) @ ''-''
     @ numberToString (getDate_in z date) @ ''-''
     @ numberToString (js_rem (getFullYear_in z date) 100)"

text \<open>The two functions in a process whose time zone is UTC.\<close>

definition parseVeracrossDate :: "string \<Rightarrow> DateValue" where
  "parseVeracrossDate date = parseVeracrossDate_in utc date"

definition generateWAFormatDate :: "DateValue \<Rightarrow> string" where
  "generateWAFormatDate date = generateWAFormatDate_in utc date"

section \<open>The document store and the terminal\<close>

text \<open>
  The models \<open>Days\<close> and \<open>Schedules\<close> come from the module \<open>mongo.js\<close>, whose text is not part of
  the sources at hand. A collection is a map from the natural key to the stored document
  together with the list of the operations issued against it. A stored document may hold
  more than the document handed to the store (an identifier that the store adds, fields of
  an earlier version of the schema), so the type of what is stored is apart from the type
  of what is saved, and \<open>keep\<close> says what the store makes of a new document. What an
  operation does besides the collection's own answer (a lost connection, a failed
  validation) is given by a fault function from the operation to the error it ends with.

  The progress line is an operation as well: \<open>process.stdout.clearLine\<close> and \<open>cursorTo\<close> are
  there when the standard output is a terminal and \<open>undefined\<close> otherwise, where the call
  fails with a TypeError. The fault function says which of the two holds.
\<close>

datatype js_error = TypeError | StoreError "int option"

definition code :: "js_error \<Rightarrow> int option" where
  \<comment> \<open>\<open>e.code\<close>\<close>
  "code e = (case e of TypeError \<Rightarrow> None | StoreError c \<Rightarrow> c)"

datatype ('d, 'u) operation = Save 'd | FindOneAndUpdate string 'u | ProgressLine

record ('s, 'd, 'u) collection =
  docs :: "string \<Rightarrow> 's option"
  issued :: "('d, 'u) operation list"

type_synonym ('d, 'u) faults = "('d, 'u) operation \<Rightarrow> js_error option"

definition save ::
  "('d, 'u) faults \<Rightarrow> ('d \<Rightarrow> string) \<Rightarrow> ('d \<Rightarrow> 's) \<Rightarrow> 'd \<Rightarrow> ('s, 'd, 'u) collection
     \<Rightarrow> js_error option \<times> ('s, 'd, 'u) collection" where
  \<comment> \<open>Modelled from the spec: \<open>document.save()\<close> of \<open>mongo.js\<close>, an insert-one that fails with
      code 11000 when the natural key is taken.\<close>
  "save fault key keep doc db =
     (let db' = db\<lparr>issued := issued db @ [Save doc]\<rparr>
      in case fault (Save doc) of
           Some e \<Rightarrow> (Some e, db')
         | None \<Rightarrow>
             (if docs db (key doc) = None
              then (None, db'\<lparr>docs := (docs db)(key doc \<mapsto> keep doc)\<rparr>)
              else (Some (StoreError (Some 11000)), db')))"

definition findOneAndUpdate ::
  "('d, 'u) faults \<Rightarrow> ('u \<Rightarrow> 's \<Rightarrow> 's) \<Rightarrow> string \<Rightarrow> 'u \<Rightarrow> ('s, 'd, 'u) collection
     \<Rightarrow> js_error option \<times> ('s, 'd, 'u) collection" where
  \<comment> \<open>Modelled from the spec: \<open>Model.findOneAndUpdate({key}, update)\<close> of \<open>mongo.js\<close>, which
      sets the fields that \<open>update\<close> names in the document stored under the key, leaves the
      other fields of that document as they are, and does nothing when there is none.\<close>
  "findOneAndUpdate fault setFields k u db =
     (let db' = db\<lparr>issued := issued db @ [FindOneAndUpdate k u]\<rparr>
      in case fault (FindOneAndUpdate k u) of
           Some e \<Rightarrow> (Some e, db')
         | None \<Rightarrow>
             (case docs db k of
                None \<Rightarrow> (None, db')
              | Some d \<Rightarrow> (None, db'\<lparr>docs := (docs db)(k \<mapsto> setFields u d)\<rparr>)))"

subsection \<open>The queue of pending operations and its drain\<close>

text \<open>
  An element of the array \<open>promises\<close> is the promise of a save with its handler for a
  failure, or such a promise whose handler has run, or a query that has not run yet: a
  query runs when it is awaited. The array is kept with its last element first, so that
  \<open>push\<close> is \<open>#\<close> and \<open>pop\<close> takes the head.

  The inserts take effect in the order in which the loop issues them. The handler of a
  failed save runs when the save has settled, which is during some pass of the drain and
  no later than the pass that awaits the save. The schedule \<open>fires\<close> gives, for each pass,
  the positions in the array (counted from its end, the element just popped being 0)
  whose handlers run during the waits of that pass, in their order. A handler that runs
  pushes its query on the array if the failure has code 11000; otherwise it throws again,
  and the promise stays rejected until the drain awaits it. What the runtime does about a
  rejection that nobody awaits yet is outside the model.
\<close>

datatype 'u pending = SavePromise "js_error option" string 'u | Handled | Query string 'u

fun pending_weight :: "'u pending \<Rightarrow> nat" where
  "pending_weight (SavePromise out k u) = 2"
| "pending_weight Handled = 1"
| "pending_weight (Query k u) = 1"

definition fire :: "'u pending list \<times> 'u pending list \<Rightarrow> nat \<Rightarrow> 'u pending list \<times> 'u pending list" where
  \<comment> \<open>the handler of the save at position \<open>j\<close> runs; \<open>pushed\<close> are the queries pushed during
      this pass, the last one first\<close>
  "fire state j =
     (case state of
        (pushed, promises) \<Rightarrow>
          (if j < length promises then
             (case promises ! j of
                SavePromise out k u \<Rightarrow>
                  (case out of
                     None \<Rightarrow> (pushed, promises)
                   | Some e \<Rightarrow>
                       (if code e = Some 11000 then (Query k u # pushed, promises[j := Handled])
                        else (pushed, promises)))
              | Handled \<Rightarrow> (pushed, promises)
              | Query k u \<Rightarrow> (pushed, promises))
           else (pushed, promises)))"

function drain ::
  "(nat \<Rightarrow> nat list) \<Rightarrow> nat \<Rightarrow> ('d, 'u) faults \<Rightarrow> ('u \<Rightarrow> 's \<Rightarrow> 's) \<Rightarrow> 'u pending list
     \<Rightarrow> ('s, 'd, 'u) collection \<Rightarrow> (js_error + unit) \<times> ('s, 'd, 'u) collection" where
  \<comment> \<open>the \<open>while\<close> loop, \<open>pass\<close> counting its passes: the progress line, the element popped
      and awaited, with the handlers that run meanwhile. The array keeps its length while
      handlers run, so it is not empty after them\<close>
  "drain fires pass fault setFields [] db = (Inr (), db)"
| "drain fires pass fault setFields (p # promises) db =
     (case fault ProgressLine of
        Some e \<Rightarrow> (Inl e, db)
      | None \<Rightarrow>
          (case foldl fire ([], p # promises) (fires pass) of
             (pushed, []) \<Rightarrow> (Inr (), db)
           | (pushed, SavePromise out k u # rest) \<Rightarrow>
               (case out of
                  None \<Rightarrow> drain fires (Suc pass) fault setFields (pushed @ rest) db
                | Some e \<Rightarrow>
                    (if code e = Some 11000
                     then drain fires (Suc pass) fault setFields (Query k u # pushed @ rest) db
                     else (Inl e, db)))
           | (pushed, Handled # rest) \<Rightarrow> drain fires (Suc pass) fault setFields (pushed @ rest) db
           | (pushed, Query k u # rest) \<Rightarrow>
               (case findOneAndUpdate fault setFields k u db of
                  (None, db') \<Rightarrow> drain fires (Suc pass) fault setFields (pushed @ rest) db'
                | (Some e, db') \<Rightarrow> (Inl e, db'))))"
  by pat_completeness auto
termination
proof -
  have upd: "sum_list (map pending_weight (xs[j := Handled])) + 1 = sum_list (map pending_weight xs)"
    if "j < length xs" "xs ! j = SavePromise out k u" for xs :: "'z pending list" and j out k u
    using that
  proof (induction xs arbitrary: j)
    case Nil
    then show ?case by simp
  next
    case (Cons x xs)
    then show ?case by (cases j) auto
  qed
  have one: "length promises' = length promises
     \<and> sum_list (map pending_weight pushed') + sum_list (map pending_weight promises')
       = sum_list (map pending_weight pushed) + sum_list (map pending_weight promises)"
    if "fire (pushed, promises) j = (pushed', promises')"
    for pushed promises pushed' promises' :: "'z pending list" and j
    using that upd [of j promises]
    by (auto simp: fire_def split: if_splits pending.splits option.splits)
  have every: "length promises' = length promises
     \<and> sum_list (map pending_weight pushed') + sum_list (map pending_weight promises')
       = sum_list (map pending_weight pushed) + sum_list (map pending_weight promises)"
    if "foldl fire (pushed, promises) js = (pushed', promises')"
    for pushed promises pushed' promises' :: "'z pending list" and js
    using that
  proof (induction js arbitrary: pushed promises)
    case Nil
    then show ?case by simp
  next
    case (Cons j js)
    obtain p1 q1 where f: "fire (pushed, promises) j = (p1, q1)"
      by (cases "fire (pushed, promises) j")
    from Cons.prems f have "foldl fire (p1, q1) js = (pushed', promises')"
      by simp
    from Cons.IH [OF this] one [OF f] show ?case
      by simp
  qed
  show ?thesis
  proof (relation "measure (\<lambda>(fires, pass, fault, setFields, promises, db).
          sum_list (map pending_weight promises))", goal_cases)
    case 1
    show ?case by simp
  next
    case prems: 2
    from every [OF prems(2) [symmetric]] prems show ?case by simp
  next
    case prems: 3
    from every [OF prems(2) [symmetric]] prems show ?case by simp
  next
    case prems: 4
    from every [OF prems(2) [symmetric]] prems show ?case by simp
  next
    case prems: 5
    from every [OF prems(2) [symmetric]] prems show ?case by simp
  qed
qed

section \<open>Rows of the days CSV\<close>

record CSVDay =
  Event_Date :: string
  Event_Caption :: string
  Event_Description :: string

text \<open>
  The fields \<open>schedule\<close> and \<open>date\<close> of a day document. A stored day document is a record
  that extends it by what else the store holds.
\<close>

record DayRecord =
  day_schedule :: string
  day_date :: string

definition extractCaption :: "string \<Rightarrow> string" where
  \<comment> \<open>the caption after lines 80 to 84: the text in parentheses when the expression matches\<close>
  "extractCaption caption = (case regex_paren caption of None \<Rightarrow> caption | Some m \<Rightarrow> m)"

definition dayDocument_in :: "zone \<Rightarrow> CSVDay \<Rightarrow> DayRecord option" where
  \<comment> \<open>one pass of the loop over the rows, up to the document; \<open>None\<close> for a row it skips\<close>
  "dayDocument_in z day =
     (if includes_js (Event_Caption day) ''Semester'' then None
      else Some \<lparr>day_schedule = extractCaption (Event_Caption day),
                 day_date = generateWAFormatDate_in z (parseVeracrossDate_in z (Event_Date day))\<rparr>)"

definition dayDocument :: "CSVDay \<Rightarrow> DayRecord option" where
  \<comment> \<open>in a process whose time zone is UTC\<close>
  "dayDocument day = dayDocument_in utc day"

definition setDaySchedule :: "string \<Rightarrow> 'x DayRecord_scheme \<Rightarrow> 'x DayRecord_scheme" where
  \<comment> \<open>the update \<open>{ schedule: caption }\<close>\<close>
  "setDaySchedule caption d = d\<lparr>day_schedule := caption\<rparr>"

fun saveDays ::
  "zone \<Rightarrow> (DayRecord \<Rightarrow> 'x) \<Rightarrow> (DayRecord, string) faults \<Rightarrow> CSVDay list \<Rightarrow> string pending list
     \<Rightarrow> ('x DayRecord_scheme, DayRecord, string) collection
     \<Rightarrow> string pending list \<times> ('x DayRecord_scheme, DayRecord, string) collection" where
  \<comment> \<open>the loop over the rows; \<open>added\<close> is what the store adds to a new document\<close>
  "saveDays z added fault [] promises db = (promises, db)"
| "saveDays z added fault (day # days) promises db =
     (case dayDocument_in z day of
        None \<Rightarrow> saveDays z added fault days promises db
      | Some doc \<Rightarrow>
          (case save fault day_date (\<lambda>d. DayRecord.extend d (added d)) doc db of
             (out, db') \<Rightarrow>
               saveDays z added fault days
                 (SavePromise out (day_date doc) (day_schedule doc) # promises) db'))"

definition parseAndUpdateDays_in ::
  "zone \<Rightarrow> (DayRecord \<Rightarrow> 'x) \<Rightarrow> (nat \<Rightarrow> nat list) \<Rightarrow> (DayRecord, string) faults \<Rightarrow> CSVDay list
     \<Rightarrow> ('x DayRecord_scheme, DayRecord, string) collection
     \<Rightarrow> (js_error + unit) \<times> ('x DayRecord_scheme, DayRecord, string) collection" where
  \<comment> \<open>from the rows that the CSV parser returns: the loop over the rows, the drain, and the
      last progress line\<close>
  "parseAndUpdateDays_in z added fires fault days db =
     (case saveDays z added fault days [] db of
        (promises, db') \<Rightarrow>
          (case drain fires 0 fault setDaySchedule promises db' of
             (Inl e, db'') \<Rightarrow> (Inl e, db'')
           | (Inr u, db'') \<Rightarrow>
               (case fault ProgressLine of
                  Some e \<Rightarrow> (Inl e, db'')
                | None \<Rightarrow> (Inr (), db''))))"

definition parseAndUpdateDays ::
  "(DayRecord, string) faults \<Rightarrow> CSVDay list \<Rightarrow> (DayRecord, DayRecord, string) collection
     \<Rightarrow> (js_error + unit) \<times> (DayRecord, DayRecord, string) collection" where
  \<comment> \<open>in a process whose time zone is UTC, on a store that keeps a document as it is saved,
      each handler running when its save is awaited\<close>
  "parseAndUpdateDays fault days db = parseAndUpdateDays_in utc (\<lambda>d. ()) (\<lambda>pass. []) fault days db"

section \<open>Rows of the schedules CSV\<close>

record CSVEvent =
  Description :: string
  End_Time :: string
  Start_Time :: string
  Block_Schedule :: string
  Day :: string

definition generateScheduleIdentifier :: "CSVEvent \<Rightarrow> string" where
  "generateScheduleIdentifier event =
     (if Day event \<noteq> ''-'' then
        (case first_digits (Day event) of
           None \<Rightarrow> ''ORPHAN''
         | Some m \<Rightarrow> ''US Day '' @ m)
      else Block_Schedule event)"

text \<open>The fields \<open>name\<close>, \<open>code\<close>, \<open>startTime\<close> and \<open>endTime\<close> of a schedule event.\<close>

record ScheduleEvent =
  ev_name :: string
  ev_code :: string
  startTime :: string
  endTime :: string

definition generateScheduleEvent :: "CSVEvent \<Rightarrow> ScheduleEvent" where
  "generateScheduleEvent event =
     \<lparr>ev_name = replace_first '' - US'' (Description event),
      ev_code = (case regex_block (Description event) of
                   None \<Rightarrow> Description event
                 | Some l \<Rightarrow> [l]),
      startTime = toUpperCase (Start_Time event),
      endTime = toUpperCase (End_Time event)\<rparr>"

text \<open>The fields \<open>name\<close>, \<open>friendlyName\<close> and \<open>schedule\<close> of a schedule document.\<close>

record ScheduleDocument =
  name :: string
  friendlyName :: string
  schedule :: "ScheduleEvent list"

subsection \<open>Grouping\<close>

text \<open>
  The object \<open>schedules\<close> is a list of its own properties in the order of their creation.
  A property that the object inherits is found by \<open>schedules[identifier]\<close> as well: its value
  has no \<open>schedule\<close>, and the \<open>push\<close> on that fails with a TypeError.
\<close>

definition object_prototype_keys :: "string list" where
  "object_prototype_keys =
     [''constructor'', ''__defineGetter__'', ''__defineSetter__'', ''hasOwnProperty'',
      ''__lookupGetter__'', ''__lookupSetter__'', ''isPrototypeOf'', ''propertyIsEnumerable'',
      ''toString'', ''valueOf'', ''__proto__'', ''toLocaleString'']"

fun push_event :: "string \<Rightarrow> ScheduleEvent \<Rightarrow> (string \<times> ScheduleDocument) list \<Rightarrow> (string \<times> ScheduleDocument) list" where
  \<comment> \<open>\<open>schedules[identifier].schedule.push(ev)\<close> on an own property\<close>
  "push_event identifier ev [] = []"
| "push_event identifier ev ((k, doc) # schedules) =
     (if k = identifier then (k, doc\<lparr>schedule := schedule doc @ [ev]\<rparr>) # schedules
      else (k, doc) # push_event identifier ev schedules)"

fun group_events ::
  "CSVEvent list \<Rightarrow> (string \<times> ScheduleDocument) list \<Rightarrow> js_error + (string \<times> ScheduleDocument) list" where
  \<comment> \<open>the loop over the rows\<close>
  "group_events [] schedules = Inr schedules"
| "group_events (event # events) schedules =
     (let identifier = generateScheduleIdentifier event
      in if map_of schedules identifier \<noteq> None
         then group_events events (push_event identifier (generateScheduleEvent event) schedules)
         else if identifier \<in> set object_prototype_keys then Inl TypeError
         else group_events events
                (schedules @ [(identifier,
                   \<lparr>name = identifier,
                    friendlyName = replace_first '' - US'' identifier,
                    schedule = [generateScheduleEvent event]\<rparr>)]))"

definition isArrayIndex :: "string \<Rightarrow> bool" where
  \<comment> \<open>a property key that is the decimal form of an integer from 0 to 4294967294\<close>
  "isArrayIndex k \<longleftrightarrow>
     k \<noteq> [] \<and> list_all isDigit k \<and> (k = ''0'' \<or> hd k \<noteq> CHR ''0'') \<and> radix_value 10 k < 4294967295"

definition object_values :: "(string \<times> ScheduleDocument) list \<Rightarrow> ScheduleDocument list" where
  \<comment> \<open>\<open>Object.values(schedules)\<close>: the integer keys in ascending order first, then the other
      keys in the order of their creation\<close>
  "object_values schedules =
     map snd (sort_key (\<lambda>(k, doc). radix_value 10 k) (filter (\<lambda>(k, doc). isArrayIndex k) schedules)
              @ filter (\<lambda>(k, doc). \<not> isArrayIndex k) schedules)"

subsection \<open>Sorting a schedule by start time\<close>

definition startHour :: "string \<Rightarrow> number" where
  \<comment> \<open>\<open>aHour\<close> of the comparison\<close>
  "startHour t =
     (let aTime = split CHR '' '' t;
          aHour = (case nth_opt (split CHR '':'' (hd aTime)) 0 of None \<Rightarrow> NaN | Some h \<Rightarrow> parseInt h)
      in if nth_opt aTime 1 = Some ''PM'' \<and> unequal_js aHour (Num 12) then plus_js aHour (Num 12)
         else aHour)"

definition startMinute :: "string \<Rightarrow> number" where
  \<comment> \<open>\<open>aMinute\<close> of the comparison; \<open>parseInt(undefined)\<close> is NaN\<close>
  "startMinute t =
     (case nth_opt (split CHR '':'' (hd (split CHR '' '' t))) 1 of None \<Rightarrow> NaN | Some m \<Rightarrow> parseInt m)"

definition compareStart :: "ScheduleEvent \<Rightarrow> ScheduleEvent \<Rightarrow> number" where
  \<comment> \<open>the comparison function handed to \<open>sort\<close>\<close>
  "compareStart a b =
     (let aHour = startHour (startTime a); bHour = startHour (startTime b)
      in if unequal_js aHour bHour then minus_js aHour bHour
         else minus_js (startMinute (startTime a)) (startMinute (startTime b)))"

definition comesAfter :: "('a \<Rightarrow> 'a \<Rightarrow> number) \<Rightarrow> 'a \<Rightarrow> 'a \<Rightarrow> bool" where
  \<comment> \<open>\<open>sort\<close> reads a positive result as "a after b" and NaN as 0\<close>
  "comesAfter cmp a b \<longleftrightarrow>
     (case cmp a b of
        NaN \<Rightarrow> False
      | Num v \<Rightarrow> 0 < v
      | PosInfinity \<Rightarrow> True
      | NegInfinity \<Rightarrow> False)"

fun insert_sorted :: "('a \<Rightarrow> 'a \<Rightarrow> number) \<Rightarrow> 'a \<Rightarrow> 'a list \<Rightarrow> 'a list" where
  "insert_sorted cmp x [] = [x]"
| "insert_sorted cmp x (y # ys) =
     (if comesAfter cmp y x then x # y # ys else y # insert_sorted cmp x ys)"

definition sort_js :: "('a \<Rightarrow> 'a \<Rightarrow> number) \<Rightarrow> 'a list \<Rightarrow> 'a list" where
  \<comment> \<open>\<open>xs.sort(cmp)\<close>, a stable sort: each element goes behind the elements, already placed,
      that do not come after it. Where the comparison function is a consistent order, which
      it is on start times that all have their hour and minute, this is the one order a
      stable sort can give. Where it is not (a NaN among the results), the language leaves
      the order to the engine: the result here is a rearrangement of the list, as the
      engine's is, and may be another one\<close>
  "sort_js cmp xs = foldl (\<lambda>sorted x. insert_sorted cmp x sorted) [] xs"

subsection \<open>Saving the schedules\<close>

definition sortSchedule :: "ScheduleDocument \<Rightarrow> ScheduleDocument" where
  "sortSchedule doc = doc\<lparr>schedule := sort_js compareStart (schedule doc)\<rparr>"

definition setScheduleFields :: "ScheduleDocument \<Rightarrow> 'x ScheduleDocument_scheme \<Rightarrow> 'x ScheduleDocument_scheme" where
  \<comment> \<open>the update \<open>schedule\<close>, an object with the fields \<open>name\<close>, \<open>friendlyName\<close> and \<open>schedule\<close>\<close>
  "setScheduleFields u d = d\<lparr>name := name u, friendlyName := friendlyName u, schedule := schedule u\<rparr>"

fun saveSchedules ::
  "(ScheduleDocument \<Rightarrow> 'x) \<Rightarrow> (ScheduleDocument, ScheduleDocument) faults \<Rightarrow> ScheduleDocument list
     \<Rightarrow> ScheduleDocument pending list
     \<Rightarrow> ('x ScheduleDocument_scheme, ScheduleDocument, ScheduleDocument) collection
     \<Rightarrow> ScheduleDocument pending list
        \<times> ('x ScheduleDocument_scheme, ScheduleDocument, ScheduleDocument) collection" where
  \<comment> \<open>the loop over \<open>Object.values(schedules)\<close>; \<open>added\<close> is what the store adds to a new
      document\<close>
  "saveSchedules added fault [] promises db = (promises, db)"
| "saveSchedules added fault (doc # rest) promises db =
     (case save fault name (\<lambda>d. ScheduleDocument.extend d (added d)) (sortSchedule doc) db of
        (out, db') \<Rightarrow>
          saveSchedules added fault rest (SavePromise out (name doc) (sortSchedule doc) # promises) db')"

definition orphans :: "(string \<times> ScheduleDocument) list \<Rightarrow> ScheduleEvent list" where
  \<comment> \<open>lines 285 to 287, after the sort has rearranged every group in place\<close>
  "orphans schedules =
     (case map_of schedules ''ORPHAN'' of
        None \<Rightarrow> []
      | Some doc \<Rightarrow> schedule (sortSchedule doc))"

definition parseAndUpdateSchedules_on ::
  "(ScheduleDocument \<Rightarrow> 'x) \<Rightarrow> (nat \<Rightarrow> nat list) \<Rightarrow> (ScheduleDocument, ScheduleDocument) faults
     \<Rightarrow> CSVEvent list \<Rightarrow> ('x ScheduleDocument_scheme, ScheduleDocument, ScheduleDocument) collection
     \<Rightarrow> (js_error + ScheduleEvent list)
        \<times> ('x ScheduleDocument_scheme, ScheduleDocument, ScheduleDocument) collection" where
  \<comment> \<open>from the rows that the CSV parser returns: the grouping, the loop over the groups, the
      drain, the last progress line, and the events of the group \<open>ORPHAN\<close>\<close>
  "parseAndUpdateSchedules_on added fires fault events db =
     (case group_events events [] of
        Inl e \<Rightarrow> (Inl e, db)
      | Inr schedules \<Rightarrow>
          (case saveSchedules added fault (object_values schedules) [] db of
             (promises, db') \<Rightarrow>
               (case drain fires 0 fault setScheduleFields promises db' of
                  (Inl e, db'') \<Rightarrow> (Inl e, db'')
                | (Inr u, db'') \<Rightarrow>
                    (case fault ProgressLine of
                       Some e \<Rightarrow> (Inl e, db'')
                     | None \<Rightarrow> (Inr (orphans schedules), db'')))))"

definition parseAndUpdateSchedules ::
  "(ScheduleDocument, ScheduleDocument) faults \<Rightarrow> CSVEvent list
     \<Rightarrow> (ScheduleDocument, ScheduleDocument, ScheduleDocument) collection
     \<Rightarrow> (js_error + ScheduleEvent list)
        \<times> (ScheduleDocument, ScheduleDocument, ScheduleDocument) collection" where
  \<comment> \<open>on a store that keeps a document as it is saved, each handler running when its save is
      awaited\<close>
  "parseAndUpdateSchedules fault events db =
     parseAndUpdateSchedules_on (\<lambda>d. ()) (\<lambda>pass. []) fault events db"

section \<open>Reading a schedule\<close>

text \<open>
  A stored schedule as \<open>findOne(...).lean()\<close> returns it: the fields of the document and of
  its events, each with the identifier \<open>_id\<close> that the store has given it.
\<close>

record 'i StoredEvent = ScheduleEvent +
  ev_id :: 'i

record ('i, 'j) StoredSchedule =
  doc_id :: 'i
  doc_name :: string
  doc_friendlyName :: string
  doc_schedule :: "'j StoredEvent list"

definition getScheduleList ::
  "js_error option \<Rightarrow> (string \<Rightarrow> js_error + ('i, 'i) StoredSchedule option) \<Rightarrow> ('i \<Rightarrow> string) \<Rightarrow> string
     \<Rightarrow> js_error + (string option, string) StoredSchedule" where
  \<comment> \<open>\<open>conn\<close> is what \<open>await conn()\<close> ends with, \<open>findOne\<close> the lookup by name in the collection,
      \<open>toString\<close> the text of an identifier. The document returned for a missing schedule has
      no \<open>_id\<close>\<close>
  "getScheduleList conn findOne toString nm =
     (case conn of
        Some e \<Rightarrow> Inl e
      | None \<Rightarrow>
          (case findOne nm of
             Inl e \<Rightarrow> Inl e
           | Inr None \<Rightarrow>
               Inr \<lparr>doc_id = None, doc_name = ''NONE'', doc_friendlyName = ''No School Day'',
                    doc_schedule = []\<rparr>
           | Inr (Some sch) \<Rightarrow>
               Inr \<lparr>doc_id = Some (toString (doc_id sch)), doc_name = doc_name sch,
                    doc_friendlyName = doc_friendlyName sch,
                    doc_schedule = map (\<lambda>e. \<lparr>ev_name = ev_name e, ev_code = ev_code e,
                                              startTime = startTime e, endTime = endTime e,
                                              ev_id = toString (ev_id e)\<rparr>) (doc_schedule sch)\<rparr>))"

section \<open>Notions for the properties of the uploads\<close>


definition updateOf :: "'u pending \<Rightarrow> (string \<times> 'u) list" where
  \<comment> \<open>the query that a pending element stands for: itself, or the one that its handler
      pushes\<close>
  "updateOf p =
     (case p of
        SavePromise out k u \<Rightarrow>
          (case out of None \<Rightarrow> [] | Some e \<Rightarrow> if code e = Some 11000 then [(k, u)] else [])
      | Handled \<Rightarrow> []
      | Query k u \<Rightarrow> [(k, u)])"

definition pendingUpdates :: "'u pending list \<Rightarrow> (string \<times> 'u) list" where
  "pendingUpdates promises = concat (map updateOf promises)"






section \<open>Properties\<close>

lemma first_digits_none: "first_digits s = None \<longleftrightarrow> (\<forall>c \<in> set s. \<not> isDigit c)"
  by (auto simp: first_digits_def Let_def dropWhile_eq_Nil_conv)

lemma first_digits_run:
  assumes pre: "\<forall>c \<in> set pre. \<not> isDigit c"
    and ds: "ds \<noteq> []" "\<forall>c \<in> set ds. isDigit c"
    and post: "post = [] \<or> \<not> isDigit (hd post)"
  shows "first_digits (pre @ ds @ post) = Some ds"
proof -
  from ds obtain d ds' where d: "ds = d # ds'" "isDigit d"
    by (cases ds) auto
  have "dropWhile (\<lambda>c. \<not> isDigit c) (pre @ ds @ post) = ds @ post"
    using pre d by (simp add: dropWhile_append3)
  moreover have "takeWhile isDigit (ds @ post) = ds"
  proof (cases post)
    case Nil
    then show ?thesis using ds by (simp add: takeWhile_eq_all_conv)
  next
    case (Cons p ps)
    with post have "\<not> isDigit p" by simp
    then show ?thesis using ds Cons by (simp add: takeWhile_tail)
  qed
  ultimately show ?thesis using ds by (simp add: first_digits_def Let_def)
qed

text \<open>
  C8. For a row whose Day field is not "-": the identifier is "US Day " followed by the
  first run of digits of the Day field (the Day field being any text without digits, then a
  non-empty run of digits, then either nothing or a text that starts with a non-digit),
  and it is "ORPHAN" when the Day field holds no digit. For a row whose Day field is "-"
  the identifier is the Block Schedule field. "US D4" gives "US Day 4".
\<close>

theorem generateScheduleIdentifier_cases:
  "(Day event = pre @ ds @ post \<and> Day event \<noteq> ''-'' \<and> (\<forall>c \<in> set pre. \<not> isDigit c)
      \<and> ds \<noteq> [] \<and> (\<forall>c \<in> set ds. isDigit c) \<and> (post = [] \<or> \<not> isDigit (hd post))
     \<longrightarrow> generateScheduleIdentifier event = ''US Day '' @ ds)
   \<and> (Day event \<noteq> ''-'' \<and> (\<forall>c \<in> set (Day event). \<not> isDigit c)
     \<longrightarrow> generateScheduleIdentifier event = ''ORPHAN'')
   \<and> (Day event = ''-'' \<longrightarrow> generateScheduleIdentifier event = Block_Schedule event)
   \<and> generateScheduleIdentifier (event\<lparr>Day := ''US D4''\<rparr>) = ''US Day 4''
   \<and> generateScheduleIdentifier (event\<lparr>Day := ''no digits here''\<rparr>) = ''ORPHAN''"
proof (intro conjI impI)
  assume a: "Day event = pre @ ds @ post \<and> Day event \<noteq> ''-'' \<and> (\<forall>c \<in> set pre. \<not> isDigit c)
      \<and> ds \<noteq> [] \<and> (\<forall>c \<in> set ds. isDigit c) \<and> (post = [] \<or> \<not> isDigit (hd post))"
  then have "first_digits (Day event) = Some ds"
    using first_digits_run [of pre ds post] by simp
  moreover from a have "Day event \<noteq> ''-''" by blast
  ultimately show "generateScheduleIdentifier event = ''US Day '' @ ds"
    by (simp add: generateScheduleIdentifier_def)
next
  assume "Day event \<noteq> ''-'' \<and> (\<forall>c \<in> set (Day event). \<not> isDigit c)"
  then show "generateScheduleIdentifier event = ''ORPHAN''"
    using first_digits_none [of "Day event"] by (simp add: generateScheduleIdentifier_def)
next
  assume "Day event = ''-''"
  then show "generateScheduleIdentifier event = Block_Schedule event"
    by (simp add: generateScheduleIdentifier_def)
next
  show "generateScheduleIdentifier (event\<lparr>Day := ''US D4''\<rparr>) = ''US Day 4''"
    by (simp add: generateScheduleIdentifier_def first_digits_def isDigit_def)
next
  show "generateScheduleIdentifier (event\<lparr>Day := ''no digits here''\<rparr>) = ''ORPHAN''"
    by (simp add: generateScheduleIdentifier_def first_digits_def isDigit_def)
qed

theorem generateScheduleIdentifier_cases_witness:
  "generateScheduleIdentifier
     \<lparr>Description = ''Block C - US'', End_Time = ''9:00 am'', Start_Time = ''8:00 am'',
      Block_Schedule = ''A Day - US'', Day = ''US D12b3''\<rparr> = ''US Day 12''
   \<and> generateScheduleIdentifier
     \<lparr>Description = ''Block C - US'', End_Time = ''9:00 am'', Start_Time = ''8:00 am'',
      Block_Schedule = ''A Day - US'', Day = ''US''\<rparr> = ''ORPHAN''
   \<and> generateScheduleIdentifier
     \<lparr>Description = ''Block C - US'', End_Time = ''9:00 am'', Start_Time = ''8:00 am'',
      Block_Schedule = ''A Day - US'', Day = ''-''\<rparr> = ''A Day - US''"
  using generateScheduleIdentifier_cases
    [of "\<lparr>Description = ''Block C - US'', End_Time = ''9:00 am'', Start_Time = ''8:00 am'',
      Block_Schedule = ''A Day - US'', Day = ''US D12b3''\<rparr>" "''US D''" "''12''" "''b3''"]
    generateScheduleIdentifier_cases
    [of "\<lparr>Description = ''Block C - US'', End_Time = ''9:00 am'', Start_Time = ''8:00 am'',
      Block_Schedule = ''A Day - US'', Day = ''US''\<rparr>" "[]" "[]" "[]"]
    generateScheduleIdentifier_cases
    [of "\<lparr>Description = ''Block C - US'', End_Time = ''9:00 am'', Start_Time = ''8:00 am'',
      Block_Schedule = ''A Day - US'', Day = ''-''\<rparr>" "[]" "[]" "[]"]
  by (simp add: isDigit_def)

section \<open>Evaluating the schedules upload\<close>

lemmas schedule_eval =
  parseAndUpdateSchedules_def parseAndUpdateSchedules_on_def generateScheduleIdentifier_def
  generateScheduleEvent_def first_digits_def isDigit_def object_prototype_keys_def object_values_def
  isArrayIndex_def radix_value_def digit_of_def sortSchedule_def sort_js_def compareStart_def
  comesAfter_def startHour_def startMinute_def minus_js_def unequal_js_def toDouble_def parseInt_def
  startsWith_def isWhiteSpace_def isRadixDigit_def nth_opt_def toUpperCase_def toUpperChar_def
  isUpperLetter_def blockAt_def save_def findOneAndUpdate_def code_def orphans_def setScheduleFields_def
  ScheduleDocument.extend_def fire_def Let_def

text \<open>
  C1. The events of a group are meant to be in the order of their start times, 12 AM being
  hour 0. The comparison adds 12 to the hours of the afternoon and leaves 12 AM at 12: of
  four rows of the day "US D1" that start at 1:15 PM, 9:00 AM, 12:00 PM and 12:30 AM, the
  stored document has 12:30 AM behind 12:00 PM, and not first.
\<close>

theorem schedule_sort_midnight:
  "map_option (\<lambda>d. map startTime (schedule d))
     (docs (snd (parseAndUpdateSchedules (\<lambda>op. None)
        [\<lparr>Description = ''Block A - US'', End_Time = ''2:00 pm'', Start_Time = ''1:15 pm'',
          Block_Schedule = [], Day = ''US D1''\<rparr>,
         \<lparr>Description = ''Block B - US'', End_Time = ''9:45 am'', Start_Time = ''9:00 am'',
          Block_Schedule = [], Day = ''US D1''\<rparr>,
         \<lparr>Description = ''Lunch'', End_Time = ''12:30 pm'', Start_Time = ''12:00 pm'',
          Block_Schedule = [], Day = ''US D1''\<rparr>,
         \<lparr>Description = ''Study'', End_Time = ''1:00 am'', Start_Time = ''12:30 am'',
          Block_Schedule = [], Day = ''US D1''\<rparr>]
        \<lparr>docs = Map.empty, issued = []\<rparr>)) ''US Day 1'')
   = Some [''9:00 AM'', ''12:00 PM'', ''12:30 AM'', ''1:15 PM'']"
  by (simp add: schedule_eval)

text \<open>
  C2. The group "ORPHAN" is meant to stay out of the store. The loop over the groups saves
  every one of them: a single row whose Day field is "US" ends with a document named "ORPHAN"
  in the collection, put there by the one operation issued.
\<close>

theorem orphan_group_saved:
  "parseAndUpdateSchedules (\<lambda>op. None)
     [\<lparr>Description = ''Block C - US'', End_Time = ''9:00 am'', Start_Time = ''8:00 am'',
       Block_Schedule = [], Day = ''US''\<rparr>]
     \<lparr>docs = Map.empty, issued = []\<rparr>
   = (Inr [\<lparr>ev_name = ''Block C'', ev_code = ''C'', startTime = ''8:00 AM'', endTime = ''9:00 AM''\<rparr>],
      \<lparr>docs = [''ORPHAN'' \<mapsto>
                 \<lparr>name = ''ORPHAN'', friendlyName = ''ORPHAN'',
                  schedule = [\<lparr>ev_name = ''Block C'', ev_code = ''C'', startTime = ''8:00 AM'',
                               endTime = ''9:00 AM''\<rparr>]\<rparr>],
        issued = [Save \<lparr>name = ''ORPHAN'', friendlyName = ''ORPHAN'',
                        schedule = [\<lparr>ev_name = ''Block C'', ev_code = ''C'', startTime = ''8:00 AM'',
                                     endTime = ''9:00 AM''\<rparr>]\<rparr>]\<rparr>)"
  by (simp add: schedule_eval)

text \<open>
  C3. The warnings are meant to be the rows, as read, whose Day field is not "-" and holds no
  digit. What comes back is the list of events of the group "ORPHAN" after the sort: the
  events made from the rows, not the rows, in the order of their start times, and among
  them the event of a row whose Day field is "-" and whose Block Schedule field is "ORPHAN".
\<close>

theorem warnings_are_sorted_events:
  "fst (parseAndUpdateSchedules (\<lambda>op. None)
     [\<lparr>Description = ''Block C - US'', End_Time = ''11:00 am'', Start_Time = ''10:00 am'',
       Block_Schedule = [], Day = ''US''\<rparr>,
      \<lparr>Description = ''Assembly'', End_Time = ''9:00 am'', Start_Time = ''8:00 am'',
       Block_Schedule = ''ORPHAN'', Day = ''-''\<rparr>]
     \<lparr>docs = Map.empty, issued = []\<rparr>)
   = Inr [\<lparr>ev_name = ''Assembly'', ev_code = ''Assembly'', startTime = ''8:00 AM'', endTime = ''9:00 AM''\<rparr>,
          \<lparr>ev_name = ''Block C'', ev_code = ''C'', startTime = ''10:00 AM'', endTime = ''11:00 AM''\<rparr>]"
  by (simp add: schedule_eval)

section \<open>Reading a schedule\<close>

text \<open>
  C10. When the connection is there and the lookup finds no schedule of the given name,
  getScheduleList returns the document named "NONE" with the friendly name "No School Day"
  and no events; when the lookup finds a schedule, it returns that schedule's name, friendly
  name and events, the identifiers turned into text.
\<close>

theorem getScheduleList_cases:
  "(findOne nm = Inr None \<longrightarrow>
      getScheduleList None findOne toString nm
        = Inr \<lparr>doc_id = None, doc_name = ''NONE'', doc_friendlyName = ''No School Day'',
               doc_schedule = []\<rparr>)
   \<and> (findOne nm = Inr (Some sch) \<longrightarrow>
      (\<exists>r. getScheduleList None findOne toString nm = Inr r
         \<and> doc_name r = doc_name sch \<and> doc_friendlyName r = doc_friendlyName sch
         \<and> doc_id r = Some (toString (doc_id sch))
         \<and> map ev_name (doc_schedule r) = map ev_name (doc_schedule sch)
         \<and> map ev_code (doc_schedule r) = map ev_code (doc_schedule sch)
         \<and> map startTime (doc_schedule r) = map startTime (doc_schedule sch)
         \<and> map endTime (doc_schedule r) = map endTime (doc_schedule sch)
         \<and> map ev_id (doc_schedule r) = map (\<lambda>e. toString (ev_id e)) (doc_schedule sch)))"
  by (simp add: getScheduleList_def comp_def)

theorem getScheduleList_cases_witness:
  "getScheduleList None (\<lambda>n. Inr (if n = ''US Day 1''
        then Some \<lparr>doc_id = (7::nat), doc_name = ''US Day 1'', doc_friendlyName = ''US Day 1'',
                   doc_schedule = [\<lparr>ev_name = ''Block C'', ev_code = ''C'', startTime = ''8:00 AM'',
                                    endTime = ''9:00 AM'', ev_id = 8\<rparr>]\<rparr>
        else None)) (\<lambda>i. replicate i CHR ''i'') ''US Day 9''
     = Inr \<lparr>doc_id = None, doc_name = ''NONE'', doc_friendlyName = ''No School Day'', doc_schedule = []\<rparr>
   \<and> (\<exists>r. getScheduleList None (\<lambda>n. Inr (if n = ''US Day 1''
        then Some \<lparr>doc_id = (7::nat), doc_name = ''US Day 1'', doc_friendlyName = ''US Day 1'',
                   doc_schedule = [\<lparr>ev_name = ''Block C'', ev_code = ''C'', startTime = ''8:00 AM'',
                                    endTime = ''9:00 AM'', ev_id = 8\<rparr>]\<rparr>
        else None)) (\<lambda>i. replicate i CHR ''i'') ''US Day 1'' = Inr r
       \<and> doc_name r = ''US Day 1'' \<and> doc_friendlyName r = ''US Day 1''
       \<and> map startTime (doc_schedule r) = [''8:00 AM''])"
  using getScheduleList_cases
    [of "\<lambda>n. Inr (if n = ''US Day 1''
        then Some \<lparr>doc_id = (7::nat), doc_name = ''US Day 1'', doc_friendlyName = ''US Day 1'',
                   doc_schedule = [\<lparr>ev_name = ''Block C'', ev_code = ''C'', startTime = ''8:00 AM'',
                                    endTime = ''9:00 AM'', ev_id = 8\<rparr>]\<rparr>
        else None)" "''US Day 9''" "\<lambda>i. replicate i CHR ''i''"]
    getScheduleList_cases
    [of "\<lambda>n. Inr (if n = ''US Day 1''
        then Some \<lparr>doc_id = (7::nat), doc_name = ''US Day 1'', doc_friendlyName = ''US Day 1'',
                   doc_schedule = [\<lparr>ev_name = ''Block C'', ev_code = ''C'', startTime = ''8:00 AM'',
                                    endTime = ''9:00 AM'', ev_id = 8\<rparr>]\<rparr>
        else None)" "''US Day 1''" "\<lambda>i. replicate i CHR ''i''"
        "\<lparr>doc_id = (7::nat), doc_name = ''US Day 1'', doc_friendlyName = ''US Day 1'',
                   doc_schedule = [\<lparr>ev_name = ''Block C'', ev_code = ''C'', startTime = ''8:00 AM'',
                                    endTime = ''9:00 AM'', ev_id = 8\<rparr>]\<rparr>"]
  by auto

section \<open>The event of a row\<close>













section \<open>Dates: parsing and formatting\<close>

lemma div_one: "k \<le> a \<Longrightarrow> a < 2 * k \<Longrightarrow> a div k = (1::int)"
proof -
  assume h: "k \<le> a" "a < 2 * k"
  then have "0 < k" by linarith
  have "(a - k) div k = 0"
    using h by (intro div_pos_pos_trivial) simp_all
  moreover have "(a - k + k) div k = (a - k) div k + 1"
    using \<open>0 < k\<close> div_add_self2 [of k "a - k"] by auto
  ultimately show ?thesis by simp
qed

lemma mod_2000: "2000 \<le> y \<Longrightarrow> y \<le> 2099 \<Longrightarrow> y mod 400 = y - 2000 \<and> y mod 100 = y - (2000::int)"
proof -
  assume h: "2000 \<le> y" "y \<le> 2099"
  have "y = (y - 2000) + 5 * 400" "y = (y - 2000) + 20 * 100" by simp_all
  then have "y mod 400 = (y - 2000) mod 400" "y mod 100 = (y - 2000) mod 100"
    by (metis mod_mult_self1)+
  then show ?thesis using h by simp
qed

lemma InLeapYear_21st: "2000 \<le> y \<Longrightarrow> y \<le> 2099 \<Longrightarrow> InLeapYear y \<longleftrightarrow> y mod 4 = 0"
  using mod_2000 [of y] by (auto simp: InLeapYear_def)

lemma DayFromYear_21st:
  "2000 \<le> y \<Longrightarrow> y \<le> 2100 \<Longrightarrow> DayFromYear y = 365 * (y - 1970) + (y - 1969) div 4"
proof (cases "y = 2000")
  case True
  then show ?thesis by (simp add: DayFromYear_def)
next
  case False
  assume "2000 \<le> y" "y \<le> 2100"
  with False have "(y - 1901) div 100 = 1" "(y - 1601) div 400 = 1"
    by (intro div_one; simp)+
  then show ?thesis by (simp add: DayFromYear_def)
qed

lemma DayFromYear_next:
  "2000 \<le> y \<Longrightarrow> y \<le> 2099 \<Longrightarrow> DayFromYear (y + 1) = DayFromYear y + 365 + leapDay y"
proof -
  assume h: "2000 \<le> y" "y \<le> 2099"
  have "(y + 1 - 1969) div 4 = (y - 1969) div 4 + (if y mod 4 = 0 then 1 else 0)"
    by presburger
  then show ?thesis
    using h DayFromYear_21st [of y] DayFromYear_21st [of "y + 1"] InLeapYear_21st [of y]
    by (simp add: leapDay_def)
qed

lemma DayFromYear_range:
  "2000 \<le> y \<Longrightarrow> y \<le> 2100 \<Longrightarrow> 10957 \<le> DayFromYear y \<and> DayFromYear y \<le> 47482"
proof -
  assume h: "2000 \<le> y" "y \<le> 2100"
  have "7 \<le> (y - 1969) div 4 \<and> (y - 1969) div 4 \<le> 32"
    using h by presburger
  then show ?thesis using h DayFromYear_21st [of y] by simp
qed

lemma div_step:
  "0 < k \<Longrightarrow> x div k \<le> (x + 1) div k \<and> (x + 1) div k \<le> x div k + (1::int)"
proof
  assume k: "0 < k"
  show "x div k \<le> (x + 1) div k"
    using k by (intro zdiv_mono1) simp_all
  have "(x + 1) div k \<le> (x + k) div k"
    using k by (intro zdiv_mono1) simp_all
  moreover have "(x + k) div k = x div k + 1"
    using k div_add_self2 [of k x] by auto
  ultimately show "(x + 1) div k \<le> x div k + 1"
    by linarith
qed

lemma DayFromYear_Suc_less: "DayFromYear y < DayFromYear (y + 1)"
  using div_step [of 4 "y - 1969"] div_step [of 100 "y - 1901"] div_step [of 400 "y - 1601"]
  by (simp add: DayFromYear_def algebra_simps)

lemma DayFromYear_mono: "a \<le> b \<Longrightarrow> DayFromYear a \<le> DayFromYear b"
proof (induction b rule: int_ge_induct)
  case base
  show ?case by simp
next
  case (step i)
  then show ?case using DayFromYear_Suc_less [of i] by linarith
qed

lemma year_search_unique:
  "DayFromYear y \<le> day \<Longrightarrow> day < DayFromYear (y + 1) \<Longrightarrow> year_search day y0 = y"
proof (induction day y0 rule: year_search.induct)
  case (1 day y0)
  show ?case
  proof (cases "day < DayFromYear y0")
    case True
    then show ?thesis
      using "1.IH"(1) "1.prems" by (subst year_search.simps) simp
  next
    case False
    show ?thesis
    proof (cases "DayFromYear (y0 + 1) \<le> day")
      case True
      then show ?thesis
        using False "1.IH"(2) "1.prems" by (subst year_search.simps) simp
    next
      case up: False
      have "y0 = y"
      proof (rule ccontr)
        assume "y0 \<noteq> y"
        then consider "y0 + 1 \<le> y" | "y + 1 \<le> y0" by linarith
        then show False
        proof cases
          case 1
          then show False
            using DayFromYear_mono [of "y0 + 1" y] up "1.prems" by linarith
        next
          case 2
          then show False
            using DayFromYear_mono [of "y + 1" y0] False "1.prems" by linarith
        qed
      qed
      then show ?thesis
        using False up by (subst year_search.simps) simp
    qed
  qed
qed

lemma leapDay_cases: "leapDay y = 0 \<or> leapDay y = 1"
  by (simp add: leapDay_def)

lemma month_cases:
  "0 \<le> m \<Longrightarrow> m \<le> (11::int) \<Longrightarrow>
     m = 0 \<or> m = 1 \<or> m = 2 \<or> m = 3 \<or> m = 4 \<or> m = 5 \<or> m = 6 \<or> m = 7 \<or> m = 8 \<or> m = 9 \<or> m = 10 \<or> m = 11"
  by arith

lemma within_year:
  assumes "0 \<le> m" "m \<le> 11" "1 \<le> d" "d \<le> daysInMonth y (m + 1)"
  shows "0 \<le> monthStart (leapDay y) m + d - 1 \<and> monthStart (leapDay y) m + d - 1 < 365 + leapDay y"
  using month_cases [OF assms(1,2)] assms(3,4) leapDay_cases [of y]
  by (elim disjE) (simp_all add: monthStart_def daysInMonth_def)

lemma month_of_offset:
  assumes "0 \<le> m" "m \<le> 11" "1 \<le> d" "d \<le> daysInMonth y (m + 1)" "l = leapDay y"
    and "w = monthStart l m + d - 1"
  shows "(if w < 31 then 0
         else if w < 59 + l then 1
         else if w < 90 + l then 2
         else if w < 120 + l then 3
         else if w < 151 + l then 4
         else if w < 181 + l then 5
         else if w < 212 + l then 6
         else if w < 243 + l then 7
         else if w < 273 + l then 8
         else if w < 304 + l then 9
         else if w < 334 + l then 10
         else 11) = m"
  using month_cases [OF assms(1,2)] assms(3-6) leapDay_cases [of y]
  by (elim disjE) (simp_all add: monthStart_def daysInMonth_def)

lemma civil_roundtrip:
  assumes y: "2000 \<le> y" "y \<le> 2099" and m: "0 \<le> m" "m \<le> 11"
    and d: "1 \<le> d" "d \<le> daysInMonth y (m + 1)"
    and day: "day = DayFromYear y + monthStart (leapDay y) m + d - 1"
  shows "YearFromDay day = y \<and> MonthFromDay day = m \<and> DateFromDay day = d"
proof -
  have w: "0 \<le> monthStart (leapDay y) m + d - 1 \<and> monthStart (leapDay y) m + d - 1 < 365 + leapDay y"
    using within_year [OF m d] .
  have "DayFromYear y \<le> day" "day < DayFromYear (y + 1)"
    using w day DayFromYear_next [OF y] by simp_all
  then have yr: "YearFromDay day = y"
    unfolding YearFromDay_def by (rule year_search_unique)
  then have dwy: "DayWithinYear day = monthStart (leapDay y) m + d - 1"
    using day by (simp add: DayWithinYear_def)
  have mo: "MonthFromDay day = m"
    unfolding MonthFromDay_def Let_def yr dwy
    using month_of_offset [OF m d refl refl] .
  have "DateFromDay day = d"
    unfolding DateFromDay_def yr dwy mo by simp
  with yr mo show ?thesis by simp
qed

lemma isDigit_cases:
  "isDigit c \<Longrightarrow> c = CHR ''0'' \<or> c = CHR ''1'' \<or> c = CHR ''2'' \<or> c = CHR ''3'' \<or> c = CHR ''4''
     \<or> c = CHR ''5'' \<or> c = CHR ''6'' \<or> c = CHR ''7'' \<or> c = CHR ''8'' \<or> c = CHR ''9''"
  by (simp add: isDigit_def)

lemma isRadixDigit_digit: "isDigit c \<Longrightarrow> isRadixDigit 10 c"
proof -
  assume "isDigit c"
  from isDigit_cases [OF this] show ?thesis
    by (elim disjE) (simp_all add: isRadixDigit_def digit_of_def)
qed
lemma isDigit_other:
  "isDigit c \<Longrightarrow> \<not> isWhiteSpace c \<and> c \<noteq> CHR ''-'' \<and> c \<noteq> CHR ''+'' \<and> c \<noteq> CHR ''x'' \<and> c \<noteq> CHR ''X''
     \<and> c \<noteq> CHR ''/''"
  by (auto simp: isDigit_def isWhiteSpace_def)

lemma toDouble_small: "\<bar>n\<bar> < 9007199254740992 \<Longrightarrow> toDouble n = Num n"
proof -
  assume "\<bar>n\<bar> < 9007199254740992"
  then have "nat \<bar>n\<bar> < 9007199254740992"
    by linarith
  then show ?thesis
    unfolding toDouble_def Let_def by (simp only: if_True)
qed

lemma parseInt_digits:
  assumes "ds \<noteq> []" "list_all isDigit ds"
  shows "parseInt ds = toDouble (int (radix_value 10 ds))"
proof -
  from assms obtain c cs where ds: "ds = c # cs" and c: "isDigit c" and cs: "list_all isDigit cs"
    by (cases ds) auto
  have ws: "dropWhile isWhiteSpace ds = ds"
    using ds c isDigit_other [of c] by simp
  have sign: "\<not> startsWith ds ''-''" "\<not> startsWith ds ''+''"
    using ds c isDigit_other [of c] by (simp_all add: startsWith_def)
  have hex: "\<not> startsWith ds ''0x''" "\<not> startsWith ds ''0X''"
  proof -
    show "\<not> startsWith ds ''0x''"
    proof (cases cs)
      case Nil
      then show ?thesis using ds by (simp add: startsWith_def)
    next
      case (Cons c2 cs2)
      then have "isDigit c2" using cs by simp
      then show ?thesis using ds Cons isDigit_other [of c2] by (simp add: startsWith_def)
    qed
    show "\<not> startsWith ds ''0X''"
    proof (cases cs)
      case Nil
      then show ?thesis using ds by (simp add: startsWith_def)
    next
      case (Cons c2 cs2)
      then have "isDigit c2" using cs by simp
      then show ?thesis using ds Cons isDigit_other [of c2] by (simp add: startsWith_def)
    qed
  qed
  have "\<forall>x \<in> set ds. isRadixDigit 10 x"
    using assms(2) isRadixDigit_digit by (auto simp: list_all_iff)
  then have tw: "takeWhile (isRadixDigit 10) ds = ds"
    by (simp add: takeWhile_eq_all_conv)
  show ?thesis
    using assms(1) by (simp add: parseInt_def Let_def ws sign hex tw)
qed

lemma split_no_sep: "sep \<notin> set s \<Longrightarrow> split sep s = [s]"
  by (induction s) auto

lemma split_append_sep: "sep \<notin> set a \<Longrightarrow> split sep (a @ sep # rest) = a # split sep rest"
  by (induction a) auto

lemma digits_not_slash: "list_all isDigit s \<Longrightarrow> CHR ''/'' \<notin> set s"
proof
  assume "list_all isDigit s" "CHR ''/'' \<in> set s"
  then have "isDigit CHR ''/''" by (simp add: list_all_iff)
  then show False by (simp add: isDigit_def)
qed

lemma split_date:
  assumes "list_all isDigit ms" "list_all isDigit ds" "list_all isDigit ys"
  shows "split CHR ''/'' (ms @ ''/'' @ ds @ ''/'' @ ys) = [ms, ds, ys]"
  using assms [THEN digits_not_slash]
  by (simp add: split_append_sep split_no_sep)

lemma numberToString_nat: "0 \<le> n \<Longrightarrow> numberToString (Num n) = digits (nat n)"
  by (simp add: numberToString_def)

lemma digits_no_leading_zero: "0 < n \<Longrightarrow> hd (digits n) \<noteq> CHR ''0''"
proof (induction n rule: digits.induct)
  case (1 n)
  show ?case
  proof (cases "n < 10")
    case True
    have "distinct ''0123456789''" by simp
    then have "(''0123456789'' ! n = ''0123456789'' ! 0) = (n = 0)"
      using True by (intro nth_eq_iff_index_eq) simp_all
    then have "''0123456789'' ! n \<noteq> CHR ''0''"
      using "1.prems" by simp
    then show ?thesis
      using True by (subst digits.simps) simp
  next
    case False
    then have "0 < n div 10" by simp
    then have "hd (digits (n div 10)) \<noteq> CHR ''0''"
      using "1.IH" False by simp
    moreover have "digits (n div 10) \<noteq> []"
      by (subst digits.simps) simp
    ultimately show ?thesis
      using False by (subst digits.simps) simp
  qed
qed

lemmas date_eval =
  generateWAFormatDate_def parseVeracrossDate_def generateWAFormatDate_in_def parseVeracrossDate_in_def
  utc_def fixedOffset_def msPerDay_def DayFromTime_def toDouble_def minus_js_def parseInt_def startsWith_def
  isWhiteSpace_def isRadixDigit_def digit_of_def radix_value_def nth_opt_def newDate_in_def MakeDay_def
  DayFromYear_def leapDay_def InLeapYear_def monthStart_def getMonth_in_def getDate_in_def
  getFullYear_in_def MonthFromDay_def DateFromDay_def DayWithinYear_def YearFromDay_def
  year_search.simps js_rem_def numberToString_def digits.simps Let_def

lemma fixedOffset_keepsDay:
  assumes "\<bar>day\<bar> < 100000000" "\<bar>ms\<bar> \<le> msPerDay"
  shows "keepsDay (fixedOffset ms) day"
proof -
  have "\<bar>day * 86400000 - ms\<bar> \<le> 8640000000000000"
    using assms unfolding msPerDay_def by linarith
  then show ?thesis
    by (simp add: keepsDay_def fixedOffset_def DayFromTime_def msPerDay_def)
qed

text \<open>
  C5, as the source has it. For a date text of three runs of decimal digits separated by
  "/", the month from 1 to 12, the day from 1 to the number of days of that month in the year
  2000 + YY, and YY from 0 to 99, read in a time zone in which local midnight of that day,
  taken to UTC and back, is a time of that same day: the date parsed is that calendar day
  (year 2000 + YY, the month, the day), and its key is month, day and YY in decimal without
  leading zeros, separated by "-".
\<close>

theorem date_key_roundtrip:
  assumes ms: "ms \<noteq> []" "list_all isDigit ms"
    and ds: "ds \<noteq> []" "list_all isDigit ds"
    and ys: "ys \<noteq> []" "list_all isDigit ys"
    and m: "1 \<le> radix_value 10 ms" "radix_value 10 ms \<le> 12"
    and d: "1 \<le> radix_value 10 ds"
      "int (radix_value 10 ds) \<le> daysInMonth (2000 + int (radix_value 10 ys)) (int (radix_value 10 ms))"
    and y: "radix_value 10 ys \<le> 99"
    and z: "keepsDay z (dayNumber (2000 + int (radix_value 10 ys)) (int (radix_value 10 ms))
                         (int (radix_value 10 ds)))"
  shows "getFullYear_in z (parseVeracrossDate_in z (ms @ ''/'' @ ds @ ''/'' @ ys))
         = Num (2000 + int (radix_value 10 ys))
     \<and> getMonth_in z (parseVeracrossDate_in z (ms @ ''/'' @ ds @ ''/'' @ ys))
         = Num (int (radix_value 10 ms) - 1)
     \<and> getDate_in z (parseVeracrossDate_in z (ms @ ''/'' @ ds @ ''/'' @ ys))
         = Num (int (radix_value 10 ds))
     \<and> generateWAFormatDate_in z (parseVeracrossDate_in z (ms @ ''/'' @ ds @ ''/'' @ ys))
         = digits (radix_value 10 ms) @ ''-'' @ digits (radix_value 10 ds) @ ''-'' @ digits (radix_value 10 ys)
     \<and> hd (digits (radix_value 10 ms)) \<noteq> CHR ''0'' \<and> hd (digits (radix_value 10 ds)) \<noteq> CHR ''0''"
proof -
  define Y where "Y = 2000 + int (radix_value 10 ys)"
  define M where "M = int (radix_value 10 ms) - 1"
  define D where "D = int (radix_value 10 ds)"
  define day where "day = DayFromYear Y + monthStart (leapDay Y) M + D - 1"
  define t where "t = utcOf z (day * msPerDay)"
  have Yr: "2000 \<le> Y" "Y \<le> 2099" using y by (simp_all add: Y_def)
  have Mr: "0 \<le> M" "M \<le> 11" using m by (simp_all add: M_def)
  have Dr: "1 \<le> D" "D \<le> daysInMonth Y (M + 1)" using d by (simp_all add: D_def Y_def M_def)
  have Db: "D \<le> 31"
    using Dr(2) leapDay_cases [of Y] by (auto simp: daysInMonth_def split: if_splits)
  have rt: "YearFromDay day = Y \<and> MonthFromDay day = M \<and> DateFromDay day = D"
    using civil_roundtrip [OF Yr Mr Dr day_def] .
  have "dayNumber (2000 + int (radix_value 10 ys)) (int (radix_value 10 ms)) (int (radix_value 10 ds)) = day"
    by (simp add: dayNumber_def day_def Y_def M_def D_def)
  with z have kd: "keepsDay z day"
    by simp
  then have rng: "\<bar>t\<bar> \<le> 8640000000000000" and same: "DayFromTime (localOf z t) = day"
    by (simp_all add: keepsDay_def t_def)
  have md: "M div 12 = 0" "M mod 12 = M"
    using Mr by simp_all
  have mk: "MakeDay Y M D = Some day"
    using Yr Mr by (simp add: MakeDay_def md day_def)
  have sp: "split CHR ''/'' (ms @ ''/'' @ ds @ ''/'' @ ys) = [ms, ds, ys]"
    using ms(2) ds(2) ys(2) by (rule split_date)
  have pm: "parseInt ms = Num (M + 1)"
    using m by (simp add: parseInt_digits [OF ms] toDouble_small M_def)
  have pd: "parseInt ds = Num D"
    using Db by (simp add: parseInt_digits [OF ds] toDouble_small D_def)
  have py: "parseInt ys = Num (Y - 2000)"
    using y by (simp add: parseInt_digits [OF ys] toDouble_small Y_def)
  have ay: "plus_js (parseInt ys) (Num 2000) = Num Y"
    using Yr by (simp add: py toDouble_small)
  have am: "minus_js (parseInt ms) (Num 1) = Num M"
    using Mr by (simp add: pm minus_js_def toDouble_small)
  have "parseVeracrossDate_in z (ms @ ''/'' @ ds @ ''/'' @ ys) = newDate_in z (Num Y) (Num M) (Num D)"
    unfolding parseVeracrossDate_in_def sp Let_def
    by (simp add: nth_opt_def ay am pd)
  also have "\<dots> = TimeValue t"
    using Yr rng by (simp add: newDate_in_def mk t_def Let_def)
  finally have pv: "parseVeracrossDate_in z (ms @ ''/'' @ ds @ ''/'' @ ys) = TimeValue t" .
  have rem: "js_rem (Num Y) 100 = Num (int (radix_value 10 ys))"
  proof -
    have "Y = int (radix_value 10 ys) + 20 * 100" by (simp add: Y_def)
    then have "Y mod 100 = int (radix_value 10 ys) mod 100"
      by (metis mod_mult_self1)
    then show ?thesis using y Yr by (simp add: js_rem_def)
  qed
  have mo: "toDouble (M + 1) = Num (int (radix_value 10 ms))"
    using m by (simp add: toDouble_small M_def)
  have fmt: "generateWAFormatDate_in z (TimeValue t)
      = digits (radix_value 10 ms) @ ''-'' @ digits (radix_value 10 ds) @ ''-'' @ digits (radix_value 10 ys)"
    using rt m d
    by (simp add: generateWAFormatDate_in_def getMonth_in_def getDate_in_def getFullYear_in_def same
        mo rem numberToString_nat D_def)
  show ?thesis
    unfolding pv
    using rt fmt m d digits_no_leading_zero [of "radix_value 10 ms"] digits_no_leading_zero [of "radix_value 10 ds"]
    by (simp add: getFullYear_in_def getMonth_in_def getDate_in_def same Y_def M_def D_def)
qed

theorem date_key_roundtrip_witness:
  "generateWAFormatDate_in (fixedOffset (- 18000000)) (parseVeracrossDate_in (fixedOffset (- 18000000)) ''09/05/24'')
     = ''9-5-24''
   \<and> getFullYear_in (fixedOffset (- 18000000)) (parseVeracrossDate_in (fixedOffset (- 18000000)) ''09/05/24'')
     = Num 2024
   \<and> getMonth_in apia (parseVeracrossDate_in apia ''12/29/11'') = Num 11
   \<and> getDate_in apia (parseVeracrossDate_in apia ''12/29/11'') = Num 29
   \<and> generateWAFormatDate_in apia (parseVeracrossDate_in apia ''12/31/11'') = ''12-31-11''"
proof -
  have v: "radix_value 10 ''09'' = 9" "radix_value 10 ''05'' = 5" "radix_value 10 ''24'' = 24"
    "radix_value 10 ''12'' = 12" "radix_value 10 ''29'' = 29" "radix_value 10 ''31'' = 31"
    "radix_value 10 ''11'' = 11"
    by (simp_all add: radix_value_def digit_of_def)
  have dim: "daysInMonth 2024 9 = 30" "daysInMonth 2011 12 = 31"
    by (simp_all add: daysInMonth_def)
  have g: "digits 9 = ''9''" "digits 5 = ''5''" "digits 24 = ''24''" "digits 12 = ''12''"
    "digits 31 = ''31''" "digits 11 = ''11''"
    by (simp_all add: digits.simps)
  have n: "dayNumber 2024 9 5 = 19971" "dayNumber 2011 12 29 = 15337" "dayNumber 2011 12 31 = 15339"
    by (simp_all add: dayNumber_def DayFromYear_def leapDay_def InLeapYear_def monthStart_def)
  have k: "keepsDay (fixedOffset (- 18000000)) 19971" "keepsDay apia 15337" "keepsDay apia 15339"
    by (simp_all add: keepsDay_def fixedOffset_def apia_def DayFromTime_def msPerDay_def)
  show ?thesis
    using date_key_roundtrip [of "''09''" "''05''" "''24''" "fixedOffset (- 18000000)"]
      date_key_roundtrip [of "''12''" "''29''" "''11''" apia]
      date_key_roundtrip [of "''12''" "''31''" "''11''" apia]
    by (simp add: v dim g n k isDigit_def)
qed

text \<open>
  C5 as it is stated fails in two ways. For a day of the month that the month does not have,
  the date constructor carries the surplus over: 30 February 2024 becomes 1 March. And in a
  time zone whose calendar skips a day, the skipped day becomes the next one: in Pacific/Apia,
  where 29 December 2011 was followed by 31 December, the key of 30 December 2011 is that of
  31 December.
\<close>

theorem date_key_differs:
  "generateWAFormatDate (parseVeracrossDate ''02/30/24'') = ''3-1-24''
   \<and> generateWAFormatDate_in apia (parseVeracrossDate_in apia ''12/30/11'') = ''12-31-11''"
  by (simp add: date_eval apia_def)

section \<open>The day document of a row\<close>







lemmas day_eval =
  dayDocument_def dayDocument_in_def extractCaption_def paren_inner_def isLineTerminator_def
  startsWith_def parseAndUpdateDays_def parseAndUpdateDays_in_def save_def findOneAndUpdate_def
  code_def setDaySchedule_def DayRecord.extend_def fire_def generateWAFormatDate_in_def
  parseVeracrossDate_in_def utc_def fixedOffset_def msPerDay_def DayFromTime_def toDouble_def
  minus_js_def parseInt_def isWhiteSpace_def isRadixDigit_def digit_of_def radix_value_def nth_opt_def
  newDate_in_def MakeDay_def DayFromYear_def leapDay_def InLeapYear_def monthStart_def getMonth_in_def
  getDate_in_def getFullYear_in_def MonthFromDay_def DateFromDay_def DayWithinYear_def YearFromDay_def
  year_search.simps js_rem_def numberToString_def digits.simps Let_def




section \<open>The drain of the queue\<close>

lemma pendingUpdates_append [simp]:
  "pendingUpdates (xs @ ys) = pendingUpdates xs @ pendingUpdates ys"
  by (simp add: pendingUpdates_def)


lemma pendingUpdates_Nil [simp]: "pendingUpdates [] = []"
  by (simp add: pendingUpdates_def)







lemma drain_off_terminal:
  "fault ProgressLine = Some e \<Longrightarrow> drain fires pass fault setFields (p # promises) db = (Inl e, db)"
  by simp








section \<open>The loops that save\<close>










section \<open>What an upload leaves of a stored document\<close>







section \<open>The groups of an upload of schedules\<close>













section \<open>An upload on a terminal, without failures of the store\<close>






section \<open>The fallback of an upload\<close>

text \<open>
  C6. A save that fails on a taken key is meant to be followed by the update of the stored
  document, and the failure not to reach the caller: the handler of the save pushes that
  update. The drain writes its progress line before it awaits anything, with two functions
  that the standard output has on a terminal only. Off a terminal the first pass of the
  drain fails with a TypeError: for the one row 9/5/24 with the caption "US Day 2" and a
  store that has a document for "9-5-24", the upload ends with that error, the one operation
  issued is the save that failed, no update is issued, and the stored schedule stays
  "US Day 1".
\<close>

theorem fallback_lost_off_terminal:
  "parseAndUpdateDays (\<lambda>op. case op of ProgressLine \<Rightarrow> Some TypeError | _ \<Rightarrow> None)
     [\<lparr>Event_Date = ''9/5/24'', Event_Caption = ''US Day 2'', Event_Description = []\<rparr>]
     \<lparr>docs = [''9-5-24'' \<mapsto> \<lparr>day_schedule = ''US Day 1'', day_date = ''9-5-24''\<rparr>], issued = []\<rparr>
   = (Inl TypeError,
      \<lparr>docs = [''9-5-24'' \<mapsto> \<lparr>day_schedule = ''US Day 1'', day_date = ''9-5-24''\<rparr>],
        issued = [Save \<lparr>day_schedule = ''US Day 2'', day_date = ''9-5-24''\<rparr>]\<rparr>)"
  by (simp add: day_eval)




end
